theory Spec2Isabelle
  imports Complex_Main
begin

section \<open>Tool calls: the declarations and the \<open>toolcall\<close> handler (Altair.tsx)\<close>

subsection \<open>Values and calls\<close>

text \<open>
  The values a call's arguments can hold: what the wire's JSON gives, and \<open>undefined\<close>
  for what is absent.
\<close>

datatype jsval =
    JUndefined
  | JNull
  | JBool bool
  | JNum real
  | JStr string
  | JArr "jsval list"
  | JObj "(string \<times> jsval) list"

text \<open>
  A function call of the remote peer, as the handler reads it: \<open>fc.id\<close>, \<open>fc.name\<close> and
  \<open>fc.args\<close>. The handler casts \<open>fc.args\<close> to \<open>any\<close>, so the arguments are any value;
  \<open>JUndefined\<close> is a call without \<open>args\<close>.
\<close>

record FunctionCall =
  fc_id :: string
  fc_name :: string
  fc_args :: jsval

text \<open>\<open>LiveServerToolCall\<close>: the field \<open>functionCalls\<close> may be missing.\<close>

record LiveServerToolCall =
  functionCalls :: "FunctionCall list option"

text \<open>
  One entry of \<open>functionResponses\<close>:
  \<open>{ response: { output: { success } }, id, name }\<close>.
\<close>

record FunctionResponse =
  success :: bool
  fr_id :: string
  fr_name :: string

text \<open>
  \<open>FunctionDeclaration\<close>: the name, the names of the declared properties (all of
  \<open>Type.STRING\<close>) and the \<open>required\<close> list.
\<close>

record FunctionDeclaration =
  decl_name :: string
  properties :: "string list"
  required :: "string list"

definition declaration_altair :: FunctionDeclaration where
  "declaration_altair =
     \<lparr>decl_name = ''render_altair'', properties = [''json_graph''],
      required = [''json_graph'']\<rparr>"

definition conversationTools :: "FunctionDeclaration list" where
  "conversationTools =
     [\<lparr>decl_name = ''log_ai_speech'', properties = [''speech'', ''type''],
       required = [''speech'', ''type'']\<rparr>,
      \<lparr>decl_name = ''log_question_start'', properties = [''question'', ''part''],
       required = [''question'']\<rparr>,
      \<lparr>decl_name = ''log_question_end'', properties = [''question''],
       required = [''question'']\<rparr>,
      \<lparr>decl_name = ''log_ai_response'', properties = [''message'', ''type''],
       required = [''message'', ''type'']\<rparr>]"

text \<open>The \<open>functionDeclarations\<close> of the configuration: \<open>[declaration, ...conversationTools]\<close>.\<close>

definition functionDeclarations :: "FunctionDeclaration list" where
  "functionDeclarations = declaration_altair # conversationTools"

subsection \<open>Effects and exceptions of a handler\<close>

text \<open>
  An argument of \<open>console.log\<close>: a literal text; a template literal with one
  interpolation, which is \<open>undefined\<close> (\<open>None\<close>) or the upper-cased form of a string
  (\<open>Some s\<close> stands for \<open>s.toUpperCase()\<close>, which is not computed here); a value read
  from the arguments; or the list of names of the batch. The pictographs that prefix
  the source's log labels are left out of the texts.
\<close>

datatype logarg =
    Text string
  | Template string "string option" string
  | Value jsval
  | NameList "string list"

text \<open>
  What a timer runs when it fires: the flush of the tool responses, or the rest of
  \<open>sendGreeting\<close> (the hook) or of \<open>startGreeting\<close> (the component) after its
  \<open>await\<close>.
\<close>

datatype action =
    sendToolResponse "FunctionResponse list"
  | sendGreeting_rest
  | startGreeting_rest

text \<open>
  The calls on the client (\<open>client.sendToolResponse\<close>, \<open>client.send\<close>) are effects too:
  the handler's part ends where it hands the message to the client.
\<close>

datatype effect =
    console_log "logarg list"
  | setTimeout action nat
  | setJSONString jsval
  | client_sendToolResponse "FunctionResponse list"
  | client_send string

text \<open>
  A piece of a handler runs to its end or throws. Either way it has performed some
  effects, in program order; what it throws is a \<open>TypeError\<close>.
\<close>

datatype error = TypeError

type_synonym run = "effect list \<times> error option"

abbreviation effects :: "run \<Rightarrow> effect list" where
  "effects r \<equiv> fst r"

abbreviation thrown :: "run \<Rightarrow> error option" where
  "thrown r \<equiv> snd r"

text \<open>One statement after another: the second runs only if the first did not throw.\<close>

fun seq :: "run \<Rightarrow> run \<Rightarrow> run" where
  "seq (es, Some e) r = (es, Some e)"
| "seq (es, None) r = (es @ fst r, snd r)"

text \<open>An expression that may throw, and what is done with its value.\<close>

definition reading :: "error + 'a \<Rightarrow> ('a \<Rightarrow> run) \<Rightarrow> run" where
  "reading r k = (case r of Inl e \<Rightarrow> ([], Some e) | Inr v \<Rightarrow> k v)"

text \<open>\<open>Array.prototype.forEach\<close>: an exception of the callback ends the loop.\<close>

fun forEach :: "('a \<Rightarrow> run) \<Rightarrow> 'a list \<Rightarrow> run" where
  "forEach f [] = ([], None)"
| "forEach f (x # xs) = seq (f x) (forEach f xs)"

text \<open>
  The property access \<open>args.k\<close>, for the names the handlers read (\<open>type\<close>, \<open>speech\<close>,
  \<open>question\<close>, \<open>part\<close>, \<open>message\<close>, \<open>json_graph\<close>): on \<open>undefined\<close> and \<open>null\<close> it throws;
  on an object it gives the property, or \<open>undefined\<close> where there is none; a string,
  number, boolean or array has no property of these names.
\<close>

fun get_prop :: "jsval \<Rightarrow> string \<Rightarrow> error + jsval" where
  "get_prop JUndefined k = Inl TypeError"
| "get_prop JNull k = Inl TypeError"
| "get_prop (JObj kvs) k = Inr (case map_of kvs k of None \<Rightarrow> JUndefined | Some v \<Rightarrow> v)"
| "get_prop v k = Inr JUndefined"

text \<open>
  \<open>v?.toUpperCase()\<close>: on \<open>undefined\<close> and \<open>null\<close> the call is skipped and the result is
  \<open>undefined\<close>; on a string it is the upper-cased string; any other value has no
  function \<open>toUpperCase\<close>, and the call throws.
\<close>

fun optional_toUpperCase :: "jsval \<Rightarrow> error + string option" where
  "optional_toUpperCase JUndefined = Inr None"
| "optional_toUpperCase JNull = Inr None"
| "optional_toUpperCase (JStr s) = Inr (Some s)"
| "optional_toUpperCase v = Inl TypeError"

text \<open>Truthiness of a value: \<open>if (args.part)\<close>.\<close>

fun truthy :: "jsval \<Rightarrow> bool" where
  "truthy JUndefined = False"
| "truthy JNull = False"
| "truthy (JBool b) = b"
| "truthy (JNum x) = (x \<noteq> 0)"
| "truthy (JStr s) = (s \<noteq> [])"
| "truthy (JArr vs) = True"
| "truthy (JObj kvs) = True"

subsection \<open>The body of \<open>forEach\<close>: the logging branches\<close>

text \<open>The \<open>if\<close>/\<open>else if\<close> chain of \<open>useAltairAI\<close> on the name of one call.\<close>

definition log_call :: "FunctionCall \<Rightarrow> run" where
  "log_call fc =
     (let args = fc_args fc in
      if fc_name fc = ''log_ai_speech'' then
        reading (get_prop args ''type'') (\<lambda>t.
        reading (optional_toUpperCase t) (\<lambda>u.
        reading (get_prop args ''speech'') (\<lambda>speech.
          ([console_log [Template ''AI SPEECH ['' u '']:'', Value speech]], None))))
      else if fc_name fc = ''log_question_start'' then
        reading (get_prop args ''question'') (\<lambda>question.
        seq ([console_log [Text ''QUESTION START:'', Value question]], None)
          (reading (get_prop args ''part'') (\<lambda>part.
             if truthy part then ([console_log [Text ''   Part:'', Value part]], None)
             else ([], None))))
      else if fc_name fc = ''log_question_end'' then
        reading (get_prop args ''question'') (\<lambda>question.
          ([console_log [Text ''QUESTION END:'', Value question]], None))
      else if fc_name fc = ''log_ai_response'' then
        reading (get_prop args ''type'') (\<lambda>t.
        reading (optional_toUpperCase t) (\<lambda>u.
        reading (get_prop args ''message'') (\<lambda>message.
          ([console_log [Template ''AI '' u '':'', Value message]], None))))
      else ([], None))"

text \<open>The entry that the flush builds for one call.\<close>

definition respond :: "FunctionCall \<Rightarrow> FunctionResponse" where
  "respond fc = \<lparr>success = True, fr_id = fc_id fc, fr_name = fc_name fc\<rparr>"

text \<open>
  The end of every handler: \<open>if (toolCall.functionCalls.length) setTimeout(..., 200)\<close>.
\<close>

definition schedule_flush :: "FunctionCall list \<Rightarrow> run" where
  "schedule_flush fcs =
     (if length fcs \<noteq> 0 then ([setTimeout (sendToolResponse (map respond fcs)) 200], None)
      else ([], None))"

subsection \<open>\<open>onToolCall\<close> of the hook \<open>useAltairAI\<close>\<close>

definition onToolCall :: "LiveServerToolCall \<Rightarrow> run" where
  "onToolCall toolCall =
     (case functionCalls toolCall of
        None \<Rightarrow> ([], None)
      | Some fcs \<Rightarrow>
          seq ([console_log [Text ''[ALTAIR] Received tool calls:'', NameList (map fc_name fcs)]],
               None)
            (seq (forEach log_call fcs) (schedule_flush fcs)))"

subsection \<open>\<open>onToolCall\<close> of \<open>AltairComponent\<close>\<close>

text \<open>
  The component's handler has no opening log line, and looks for the first
  \<open>render_altair\<close> call to hand its \<open>json_graph\<close> to the chart. One variant of the
  component has the same logging chain as the hook; the other has no \<open>log_ai_speech\<close>
  branch.
\<close>

definition log_call_basic :: "FunctionCall \<Rightarrow> run" where
  "log_call_basic fc =
     (let args = fc_args fc in
      if fc_name fc = ''log_question_start'' then
        reading (get_prop args ''question'') (\<lambda>question.
        seq ([console_log [Text ''QUESTION START:'', Value question]], None)
          (reading (get_prop args ''part'') (\<lambda>part.
             if truthy part then ([console_log [Text ''   Part:'', Value part]], None)
             else ([], None))))
      else if fc_name fc = ''log_question_end'' then
        reading (get_prop args ''question'') (\<lambda>question.
          ([console_log [Text ''QUESTION END:'', Value question]], None))
      else if fc_name fc = ''log_ai_response'' then
        reading (get_prop args ''type'') (\<lambda>t.
        reading (optional_toUpperCase t) (\<lambda>u.
        reading (get_prop args ''message'') (\<lambda>message.
          ([console_log [Template ''AI '' u '':'', Value message]], None))))
      else ([], None))"

definition render_altair :: "FunctionCall list \<Rightarrow> run" where
  "render_altair fcs =
     (case find (\<lambda>fc. fc_name fc = decl_name declaration_altair) fcs of
        None \<Rightarrow> ([], None)
      | Some fc \<Rightarrow>
          reading (get_prop (fc_args fc) ''json_graph'') (\<lambda>str. ([setJSONString str], None)))"

definition onToolCall_component ::
  "(FunctionCall \<Rightarrow> run) \<Rightarrow> LiveServerToolCall \<Rightarrow> run" where
  "onToolCall_component logging toolCall =
     (case functionCalls toolCall of
        None \<Rightarrow> ([], None)
      | Some fcs \<Rightarrow>
          seq (forEach logging fcs) (seq (render_altair fcs) (schedule_flush fcs)))"

definition AltairComponent_onToolCall :: "LiveServerToolCall \<Rightarrow> run" where
  "AltairComponent_onToolCall = onToolCall_component log_call"

definition AltairComponent_onToolCall_basic :: "LiveServerToolCall \<Rightarrow> run" where
  "AltairComponent_onToolCall_basic = onToolCall_component log_call_basic"

subsection \<open>Reading a handler's effects\<close>

text \<open>
  The timers a handler has set, its log lines, and the tool responses it hands to the
  client at once.
\<close>

fun timers :: "effect list \<Rightarrow> (action \<times> nat) list" where
  "timers [] = []"
| "timers (setTimeout a d # es) = (a, d) # timers es"
| "timers (e # es) = timers es"

fun logs :: "effect list \<Rightarrow> logarg list list" where
  "logs [] = []"
| "logs (console_log l # es) = l # logs es"
| "logs (e # es) = logs es"

fun tool_responses :: "effect list \<Rightarrow> FunctionResponse list list" where
  "tool_responses [] = []"
| "tool_responses (client_sendToolResponse rs # es) = rs # tool_responses es"
| "tool_responses (e # es) = tool_responses es"

text \<open>
  The declared schema of a call's tool, following the spec's words (arguments "validated
  against declaration schema"): a call matches when a tool of its name is declared, its
  arguments are an object, every required property is there, and every declared
  property that is there is a string.
\<close>

definition property_matches :: "FunctionDeclaration \<Rightarrow> (string \<times> jsval) list \<Rightarrow> string \<Rightarrow> bool" where
  "property_matches d kvs k =
     (case map_of kvs k of
        None \<Rightarrow> k \<notin> set (required d)
      | Some (JStr s) \<Rightarrow> True
      | Some v \<Rightarrow> False)"

definition matches_schema :: "FunctionDeclaration list \<Rightarrow> FunctionCall \<Rightarrow> bool" where
  "matches_schema decls fc =
     (case find (\<lambda>d. decl_name d = fc_name fc) decls of
        None \<Rightarrow> False
      | Some d \<Rightarrow>
          (case fc_args fc of
             JObj kvs \<Rightarrow> list_all (property_matches d kvs) (properties d)
           | v \<Rightarrow> False))"

section \<open>The greeting after connecting (Altair.tsx, step 3)\<close>

text \<open>
  The effect of the hook on \<open>[connected, isInitialized, client]\<close>: it returns at once
  unless both flags hold; otherwise it logs and starts \<open>sendGreeting\<close>, which first awaits
  a timer of 2000 ms.
\<close>

definition greeting_effect :: "bool \<Rightarrow> bool \<Rightarrow> effect list" where
  "greeting_effect is_connected isInitialized =
     (if \<not> is_connected \<or> \<not> isInitialized then []
      else [console_log [Text ''[ALTAIR] Client connected, waiting to send greeting...''],
            setTimeout sendGreeting_rest 2000])"

text \<open>
  The component's effect on \<open>[client]\<close> starts \<open>startGreeting\<close> when it mounts, whatever
  the connection; it awaits a timer of 1500 ms.
\<close>

definition startGreeting_effect :: "effect list" where
  "startGreeting_effect = [setTimeout startGreeting_rest 1500]"

text \<open>
  What runs when a timer fires; \<open>session\<close> tells whether \<open>client.session\<close> is set at that
  moment.
\<close>

fun run_action :: "bool \<Rightarrow> action \<Rightarrow> effect list" where
  "run_action session (sendToolResponse rs) = [client_sendToolResponse rs]"
| "run_action session sendGreeting_rest =
     (if session then
        [console_log [Text ''[ALTAIR] Sending initial greeting to start AI''],
         client_send ''Hello, I'm ready to begin the IELTS speaking test.'']
      else [console_log [Text ''[ALTAIR] Session not ready yet'']])"
| "run_action session startGreeting_rest =
     (if session then
        [client_send
           ''Hello, I'm ready to begin the IELTS speaking test. Please start speaking.'']
      else [])"

text \<open>The messages an effect list hands to \<open>client.send\<close>.\<close>

fun sends :: "effect list \<Rightarrow> string list" where
  "sends [] = []"
| "sends (client_send t # es) = t # sends es"
| "sends (e # es) = sends es"

text \<open>
  Every tool response the client is handed because of an effect list: those sent at
  once, and those sent when the timers it set fire.
\<close>

definition all_tool_responses :: "bool \<Rightarrow> effect list \<Rightarrow> FunctionResponse list list" where
  "all_tool_responses session es =
     tool_responses es @
     tool_responses (concat (map (\<lambda>(a, d). run_action session a) (timers es)))"

section \<open>The audio tray: recorder, mute and connection (AudioControlTray.tsx)\<close>

subsection \<open>The recorder\<close>

text \<open>
  Modelled from the spec: the class \<open>AudioRecorder\<close> (lib/audio-recorder), whose
  \<open>on\<close>, \<open>off\<close>, \<open>start\<close> and \<open>stop\<close> the tray calls, is not among the sources. After
  section 4.1 of the specification: \<open>start\<close> acquires the capture device and, on
  success, begins the periodic tick; it fails when the device is unavailable and the
  engine stays stopped. \<open>stop\<close> releases the device and is idempotent. A tick of a
  started engine emits a data event with the encoded frame and a volume event. The
  events reach the handlers subscribed with \<open>on\<close> and not yet removed with \<open>off\<close>.
  The tray calls no muting method of the recorder, so the engine has none here.
\<close>

datatype event_name = Data | Volume

record AudioRecorder =
  device_available :: bool
  recording :: bool
  listeners :: "event_name set"

text \<open>
  Modelled from the spec: \<open>on\<close> of the absent \<open>AudioRecorder\<close> subscribes a handler to an
  event of the engine (section 4.1: the engine "emits" its events).
\<close>

definition on :: "event_name \<Rightarrow> AudioRecorder \<Rightarrow> AudioRecorder" where
  "on e r = r\<lparr>listeners := insert e (listeners r)\<rparr>"

text \<open>
  Modelled from the spec: \<open>off\<close> of the absent \<open>AudioRecorder\<close> removes the handler again.
\<close>

definition off :: "event_name \<Rightarrow> AudioRecorder \<Rightarrow> AudioRecorder" where
  "off e r = r\<lparr>listeners := listeners r - {e}\<rparr>"

text \<open>
  Modelled from the spec: \<open>start\<close> of the absent \<open>AudioRecorder\<close> acquires the device and
  begins the tick; where the device is unavailable the engine stays stopped.
\<close>

definition start :: "AudioRecorder \<Rightarrow> AudioRecorder" where
  "start r = (if device_available r then r\<lparr>recording := True\<rparr> else r)"

text \<open>
  Modelled from the spec: \<open>stop\<close> of the absent \<open>AudioRecorder\<close> releases the device;
  idempotent.
\<close>

definition stop :: "AudioRecorder \<Rightarrow> AudioRecorder" where
  "stop r = r\<lparr>recording := False\<rparr>"

text \<open>An event as a handler receives it: the encoded frame, or the volume sample.\<close>

datatype emitted = DataEvent string | VolumeEvent real

text \<open>
  Modelled from the spec: the periodic tick of the absent \<open>AudioRecorder\<close>. A started
  engine emits the data event and then the volume event; each reaches the tray if a
  handler is subscribed to it. A stopped engine has no tick.
\<close>

definition capture_tick :: "AudioRecorder \<Rightarrow> string \<Rightarrow> real \<Rightarrow> emitted list" where
  "capture_tick r base64 v =
     (if recording r then
        (if Data \<in> listeners r then [DataEvent base64] else []) @
        (if Volume \<in> listeners r then [VolumeEvent v] else [])
      else [])"

subsection \<open>The client's audio send\<close>

text \<open>The condition an audio send fails with when the session is not connected.\<close>

datatype send_error = InvalidState

text \<open>
  Modelled from the spec: \<open>client.sendRealtimeInput\<close> (the spec's \<open>sendAudio\<close>) is a
  method of the session client, which is not among the sources. After section 4.3 and
  the scenario of section 8: it is valid only when connected, where it queues the chunk
  for transmission in order; otherwise it fails with an invalid-state condition and
  transmits nothing.
\<close>

definition sendRealtimeInput :: "bool \<Rightarrow> string \<Rightarrow> string list \<Rightarrow> send_error + string list" where
  "sendRealtimeInput is_connected chunk wire =
     (if is_connected then Inr (wire @ [chunk]) else Inl InvalidState)"

subsection \<open>The tray\<close>

text \<open>
  The state the tray's audio effect reads and writes: the flag \<open>connected\<close> of the
  context (here \<open>connected_flag\<close>), its own \<open>muted\<close> and \<open>inVolume\<close>, the recorder, and what the client has
  transmitted. \<open>send_calls\<close> counts the invocations of \<open>client.sendRealtimeInput\<close> by
  \<open>onData\<close>.
\<close>

record tray =
  connected_flag :: bool
  muted :: bool
  inVolume :: real
  audioRecorder :: AudioRecorder
  wire :: "string list"
  send_calls :: nat

text \<open>
  The effect on \<open>[connected, client, muted, audioRecorder]\<close>: its body, and the cleanup it
  returns, which runs before the effect runs again.
\<close>

definition audio_effect :: "bool \<Rightarrow> bool \<Rightarrow> AudioRecorder \<Rightarrow> AudioRecorder" where
  "audio_effect is_connected is_muted r =
     (if is_connected \<and> \<not> is_muted then start (on Volume (on Data r)) else stop r)"

definition audio_cleanup :: "AudioRecorder \<Rightarrow> AudioRecorder" where
  "audio_cleanup r = off Volume (off Data r)"

text \<open>
  A change of \<open>connected\<close> or \<open>muted\<close> renders the tray again and runs the cleanup and
  then the effect; the render and its effect are one step here.
\<close>

definition rerender :: "tray \<Rightarrow> tray" where
  "rerender s =
     s\<lparr>audioRecorder := audio_effect (connected_flag s) (muted s) (audio_cleanup (audioRecorder s))\<rparr>"

text \<open>\<open>onData\<close>: the chunk goes to \<open>client.sendRealtimeInput\<close>; its failure is not handled.\<close>

definition onData :: "string \<Rightarrow> tray \<Rightarrow> tray" where
  "onData base64 s =
     (case sendRealtimeInput (connected_flag s) base64 (wire s) of
        Inl e \<Rightarrow> s\<lparr>send_calls := send_calls s + 1\<rparr>
      | Inr w \<Rightarrow> s\<lparr>wire := w, send_calls := send_calls s + 1\<rparr>)"

fun deliver :: "emitted \<Rightarrow> tray \<Rightarrow> tray" where
  "deliver (DataEvent base64) s = onData base64 s"
| "deliver (VolumeEvent v) s = s\<lparr>inVolume := v\<rparr>"

datatype tray_event = SetConnected bool | ToggleMute | CaptureTick string real

fun tray_step :: "tray_event \<Rightarrow> tray \<Rightarrow> tray" where
  "tray_step (SetConnected b) s =
     (if connected_flag s = b then s else rerender (s\<lparr>connected_flag := b\<rparr>))"
| "tray_step ToggleMute s = rerender (s\<lparr>muted := \<not> muted s\<rparr>)"
| "tray_step (CaptureTick base64 v) s =
     fold deliver (capture_tick (audioRecorder s) base64 v) s"

text \<open>
  The tray when it mounts: \<open>useState(0)\<close>, \<open>useState(false)\<close>, a new recorder, not
  connected; the effect has run once (its \<open>else\<close> branch).
\<close>

definition tray_init :: "bool \<Rightarrow> tray" where
  "tray_init device =
     rerender
       \<lparr>connected_flag = False, muted = False, inVolume = 0,
        audioRecorder = \<lparr>device_available = device, recording = False, listeners = {}\<rparr>,
        wire = [], send_calls = 0\<rparr>"

definition tray_run :: "bool \<Rightarrow> tray_event list \<Rightarrow> tray" where
  "tray_run device evs = fold tray_step evs (tray_init device)"

section \<open>The playback queue and the interrupted signal\<close>

text \<open>
  Modelled from the spec: the playback engine (the audio streamer of the session hook)
  is not among the sources. After section 4.2 of the specification: \<open>enqueue\<close> appends
  a frame to the buffer; the playback clock drains it in arrival order, and on underrun
  inserts silence and counts a warning; an interrupted signal clears the queue at once.
  The bound of the buffer is left out: the specification does not say what a full
  buffer does.
\<close>

record AudioPlaybackEngine =
  queue :: "string list"
  underruns :: nat

text \<open>Modelled from the spec: \<open>enqueue\<close> of the absent playback engine appends the frame.\<close>

definition enqueue :: "string \<Rightarrow> AudioPlaybackEngine \<Rightarrow> AudioPlaybackEngine" where
  "enqueue frame p = p\<lparr>queue := queue p @ [frame]\<rparr>"

text \<open>Modelled from the spec: the immediate flush of the absent playback engine.\<close>

definition flush :: "AudioPlaybackEngine \<Rightarrow> AudioPlaybackEngine" where
  "flush p = p\<lparr>queue := []\<rparr>"

text \<open>
  Modelled from the spec: one tick of the playback clock of the absent playback engine.
  It gives the frame played (\<open>None\<close> is the silence inserted on underrun) and the new
  state.
\<close>

definition playback_tick :: "AudioPlaybackEngine \<Rightarrow> string option \<times> AudioPlaybackEngine" where
  "playback_tick p =
     (case queue p of
        [] \<Rightarrow> (None, p\<lparr>underruns := underruns p + 1\<rparr>)
      | f # fs \<Rightarrow> (Some f, p\<lparr>queue := fs\<rparr>))"

text \<open>
  Modelled from the spec: the inbound messages of section 6 that concern playback, and
  the reaction of the absent playback engine to each.
\<close>

datatype InboundMessage = AudioChunk string | TurnComplete | Interrupted

fun on_inbound :: "InboundMessage \<Rightarrow> AudioPlaybackEngine \<Rightarrow> AudioPlaybackEngine" where
  "on_inbound (AudioChunk payload) p = enqueue payload p"
| "on_inbound TurnComplete p = p"
| "on_inbound Interrupted p = flush p"

section \<open>The volume indicator (AudioControlTray.tsx, ChatLayout)\<close>

text \<open>
  The volume is a number of the language: \<open>NaN\<close>, an infinity, or a finite value.
\<close>

datatype extended = MinusInfinity | Finite real | PlusInfinity

datatype number = NaN | Num extended

fun ext_le :: "extended \<Rightarrow> extended \<Rightarrow> bool" where
  "ext_le MinusInfinity y = True"
| "ext_le x PlusInfinity = True"
| "ext_le (Finite x) (Finite y) = (x \<le> y)"
| "ext_le x y = False"

text \<open>\<open>Math.max\<close> and \<open>Math.min\<close> of two numbers: \<open>NaN\<close> if either is, else one of the two.\<close>

fun Math_max :: "number \<Rightarrow> number \<Rightarrow> number" where
  "Math_max NaN b = NaN"
| "Math_max a NaN = NaN"
| "Math_max (Num x) (Num y) = Num (if ext_le x y then y else x)"

fun Math_min :: "number \<Rightarrow> number \<Rightarrow> number" where
  "Math_min NaN b = NaN"
| "Math_min a NaN = NaN"
| "Math_min (Num x) (Num y) = Num (if ext_le x y then x else y)"

text \<open>
  \<open>volume * 100\<close>. The product of a finite volume is the exact product rounded to a
  number of the language, where it may overflow to an infinity; the rounding \<open>rnd\<close> is a
  parameter.
\<close>

fun times_100 :: "(real \<Rightarrow> extended) \<Rightarrow> number \<Rightarrow> number" where
  "times_100 rnd NaN = NaN"
| "times_100 rnd (Num MinusInfinity) = Num MinusInfinity"
| "times_100 rnd (Num PlusInfinity) = Num PlusInfinity"
| "times_100 rnd (Num (Finite x)) = Num (rnd (x * 100))"

text \<open>
  The width of the indicator, in percent:
  \<open>Math.min(Math.max(volume * 100, 5), 100)\<close>.
\<close>

definition volume_width :: "(real \<Rightarrow> extended) \<Rightarrow> number \<Rightarrow> number" where
  "volume_width rnd volume =
     Math_min (Math_max (times_100 rnd volume) (Num (Finite 5))) (Num (Finite 100))"

section \<open>Example inputs\<close>

text \<open>
  The call of the specification's scenario; a call whose name no branch of the handler
  knows; a second call with the id \<open>a\<close>; a \<open>log_question_start\<close> call whose arguments
  lack the required \<open>question\<close> and hold a number for \<open>part\<close>; a \<open>log_question_start\<close> call
  with no arguments at all; and a \<open>log_ai_response\<close> call whose \<open>type\<close> is a number.
\<close>

definition call_a :: FunctionCall where
  "call_a =
     \<lparr>fc_id = ''a'', fc_name = ''log_question_start'',
      fc_args = JObj [(''question'', JStr ''Tell me about your hometown'')]\<rparr>"

definition call_unknown :: FunctionCall where
  "call_unknown = \<lparr>fc_id = ''u'', fc_name = ''unknown_tool'', fc_args = JObj []\<rparr>"


definition call_mismatch :: FunctionCall where
  "call_mismatch =
     \<lparr>fc_id = ''b'', fc_name = ''log_question_start'', fc_args = JObj [(''part'', JNum 2)]\<rparr>"

definition call_without_args :: FunctionCall where
  "call_without_args =
     \<lparr>fc_id = ''c'', fc_name = ''log_question_start'', fc_args = JUndefined\<rparr>"

definition call_type_number :: FunctionCall where
  "call_type_number =
     \<lparr>fc_id = ''d'', fc_name = ''log_ai_response'',
      fc_args = JObj [(''message'', JStr ''m''), (''type'', JNum 5)]\<rparr>"

text \<open>A tray that has connected with a working device, and the same tray after muting.\<close>

definition tray_connected :: tray where
  "tray_connected = tray_step (SetConnected True) (tray_init True)"

definition tray_muted :: tray where
  "tray_muted = tray_step ToggleMute tray_connected"

text \<open>A session: connect, one capture tick, disconnect.\<close>

definition short_session :: "tray_event list" where
  "short_session = [SetConnected True, CaptureTick ''AAAA'' (1 / 2), SetConnected False]"

text \<open>
  The invariant of the tray: its data handler is subscribed only while connected.
\<close>

definition data_guarded :: "tray \<Rightarrow> bool" where
  "data_guarded s = (Data \<in> listeners (audioRecorder s) \<longrightarrow> connected_flag s)"

text \<open>
  A piece of a handler is quiet when it sets no timer and hands the client no tool
  response.
\<close>

definition quiet :: "run \<Rightarrow> bool" where
  "quiet r = (timers (effects r) = [] \<and> tool_responses (effects r) = [])"

section \<open>Properties of the tool-call handler\<close>

subsection \<open>Sequencing, timers and responses\<close>

lemma seq_effects: "effects (seq a b) = effects a @ (if thrown a = None then effects b else [])"
  by (cases a; cases "snd a") simp_all

lemma seq_thrown: "thrown (seq a b) = (if thrown a = None then thrown b else thrown a)"
  by (cases a; cases "snd a") simp_all

lemma timers_append: "timers (xs @ ys) = timers xs @ timers ys"
  by (induction xs rule: timers.induct) simp_all

lemma tool_responses_append: "tool_responses (xs @ ys) = tool_responses xs @ tool_responses ys"
  by (induction xs rule: tool_responses.induct) simp_all

lemma quiet_seq: "quiet a \<Longrightarrow> quiet b \<Longrightarrow> quiet (seq a b)"
  by (simp add: quiet_def seq_effects timers_append tool_responses_append)

lemma quiet_reading: "(\<And>v. quiet (k v)) \<Longrightarrow> quiet (reading r k)"
  by (cases r) (simp_all add: reading_def quiet_def)

lemma quiet_log: "quiet ([console_log l], None)" "quiet ([], None)"
  by (simp_all add: quiet_def)

text \<open>The logging branches set no timer and send nothing, whether they throw or not.\<close>

lemma quiet_log_call: "quiet (log_call fc)"
  unfolding log_call_def Let_def
  by (intro quiet_reading quiet_seq quiet_log | simp only: if_split | rule conjI impI)+

lemma quiet_forEach: "(\<And>x. quiet (f x)) \<Longrightarrow> quiet (forEach f xs)"
  by (induction xs) (simp_all add: quiet_seq quiet_log)

text \<open>A loop that ends without exception has run its body on every element, in order.\<close>

lemma forEach_effects:
  "thrown (forEach f xs) = None \<Longrightarrow> effects (forEach f xs) = concat (map (\<lambda>x. effects (f x)) xs)"
  by (induction xs) (auto simp add: seq_thrown seq_effects split: if_splits)

lemma forEach_completes:
  "thrown (forEach f xs) = None \<Longrightarrow> x \<in> set xs \<Longrightarrow> thrown (f x) = None"
  by (induction xs) (auto simp add: seq_thrown split: if_splits)

lemma onToolCall_thrown:
  "thrown (onToolCall \<lparr>functionCalls = Some fcs\<rparr>) = thrown (forEach log_call fcs)"
  by (simp add: onToolCall_def seq_thrown schedule_flush_def)

text \<open>
  The hook's handler sets its one timer exactly when the batch is not empty and the
  loop over it has not thrown; it never hands the client a response itself.
\<close>

lemma onToolCall_timers:
  "timers (effects (onToolCall \<lparr>functionCalls = Some fcs\<rparr>)) =
     (if thrown (forEach log_call fcs) = None \<and> fcs \<noteq> []
      then [(sendToolResponse (map respond fcs), 200)] else [])"
  using quiet_forEach [of log_call fcs, OF quiet_log_call]
  by (simp add: onToolCall_def seq_effects timers_append quiet_def schedule_flush_def)

lemma onToolCall_direct:
  "tool_responses (effects (onToolCall \<lparr>functionCalls = Some fcs\<rparr>)) = []"
  using quiet_forEach [of log_call fcs, OF quiet_log_call]
  by (simp add: onToolCall_def seq_effects tool_responses_append quiet_def schedule_flush_def)

lemma onToolCall_all_responses:
  "all_tool_responses session (effects (onToolCall \<lparr>functionCalls = Some fcs\<rparr>)) =
     (if thrown (forEach log_call fcs) = None \<and> fcs \<noteq> [] then [map respond fcs] else [])"
  by (simp add: all_tool_responses_def onToolCall_timers onToolCall_direct)

lemma onToolCall_all_success:
  "list_all (list_all success) (all_tool_responses session (effects (onToolCall toolCall)))"
proof (cases "functionCalls toolCall")
  case None
  then show ?thesis by (simp add: onToolCall_def all_tool_responses_def)
next
  case (Some fcs)
  then have "toolCall = \<lparr>functionCalls = Some fcs\<rparr>" by (cases toolCall) simp
  then show ?thesis
    by (simp add: onToolCall_all_responses list_all_iff respond_def)
qed

lemma log_call_in_effects:
  assumes "thrown (onToolCall \<lparr>functionCalls = Some fcs\<rparr>) = None" "fc \<in> set fcs"
  shows "set (effects (log_call fc)) \<subseteq> set (effects (onToolCall \<lparr>functionCalls = Some fcs\<rparr>))"
proof -
  from assms(1) have c: "thrown (forEach log_call fcs) = None" by (simp add: onToolCall_thrown)
  from forEach_effects [OF c] assms(2) show ?thesis
    by (auto simp add: onToolCall_def seq_effects)
qed



subsection \<open>Unmatched names\<close>

text \<open>
  Claim C1, as the code has it: on a batch that the handler runs through without an
  exception, a call whose name no branch of the handler knows is not dropped, and is
  not answered with a failure either. No logging branch runs for it; the handler sends
  nothing at once and sets one timer of 200 ms; when the timer fires the client is
  handed a single tool response, which carries for the call the entry
  \<open>{success: true}\<close> with its id and name. And whatever the message, every entry of
  every tool response that the handler sends or schedules is \<open>{success: true}\<close>.
\<close>

theorem unmatched_call_answered_success:
  assumes "fc \<in> set fcs"
    and "fc_name fc \<notin>
           {''log_ai_speech'', ''log_question_start'', ''log_question_end'', ''log_ai_response''}"
    and "thrown (onToolCall \<lparr>functionCalls = Some fcs\<rparr>) = None"
  shows "log_call fc = ([], None)
       \<and> tool_responses (effects (onToolCall \<lparr>functionCalls = Some fcs\<rparr>)) = []
       \<and> timers (effects (onToolCall \<lparr>functionCalls = Some fcs\<rparr>)) =
           [(sendToolResponse (map respond fcs), 200)]
       \<and> all_tool_responses session (effects (onToolCall \<lparr>functionCalls = Some fcs\<rparr>)) =
           [map respond fcs]
       \<and> \<lparr>success = True, fr_id = fc_id fc, fr_name = fc_name fc\<rparr> \<in> set (map respond fcs)
       \<and> list_all (list_all success)
           (all_tool_responses session (effects (onToolCall toolCall)))"
proof -
  from assms(2) have "log_call fc = ([], None)" by (simp add: log_call_def)
  moreover from assms(1) have ne: "fcs \<noteq> []" by auto
  moreover from assms(3) have c: "thrown (forEach log_call fcs) = None"
    by (simp add: onToolCall_thrown)
  moreover from assms(1) have "respond fc \<in> set (map respond fcs)" by simp
  then have "\<lparr>success = True, fr_id = fc_id fc, fr_name = fc_name fc\<rparr> \<in> set (map respond fcs)"
    by (simp only: respond_def)
  ultimately show ?thesis
    using onToolCall_all_success [of session toolCall]
    by (simp add: onToolCall_timers onToolCall_direct onToolCall_all_responses)
qed

theorem unmatched_call_answered_success_witness:
  "thrown (onToolCall \<lparr>functionCalls = Some [call_a, call_unknown]\<rparr>) = None
   \<and> log_call call_unknown = ([], None)
   \<and> all_tool_responses True (effects (onToolCall \<lparr>functionCalls = Some [call_a, call_unknown]\<rparr>)) =
       [[\<lparr>success = True, fr_id = ''a'', fr_name = ''log_question_start''\<rparr>,
         \<lparr>success = True, fr_id = ''u'', fr_name = ''unknown_tool''\<rparr>]]
   \<and> timers (effects (onToolCall \<lparr>functionCalls = Some [call_a, call_unknown]\<rparr>)) =
       [(sendToolResponse
           [\<lparr>success = True, fr_id = ''a'', fr_name = ''log_question_start''\<rparr>,
            \<lparr>success = True, fr_id = ''u'', fr_name = ''unknown_tool''\<rparr>], 200)]"
proof -
  have c: "thrown (onToolCall \<lparr>functionCalls = Some [call_a, call_unknown]\<rparr>) = None"
    by (simp add: onToolCall_def log_call_def reading_def schedule_flush_def call_a_def
        call_unknown_def)
  have n: "fc_name call_unknown \<notin>
      {''log_ai_speech'', ''log_question_start'', ''log_question_end'', ''log_ai_response''}"
    by (simp add: call_unknown_def)
  from unmatched_call_answered_success [of call_unknown "[call_a, call_unknown]", OF _ n c,
      of True] c
  show ?thesis by (simp add: respond_def call_a_def call_unknown_def)
qed

text \<open>
  The claim as the specification words it fails on its own scenario: for the batch of
  the one call \<open>a\<close>, and for a batch of an unknown tool, the handler runs through, and
  the one tool response it schedules carries \<open>{success: true}\<close>; no entry with
  \<open>success: false\<close> is sent.
\<close>

theorem unmatched_call_failure_counterexample:
  "onToolCall \<lparr>functionCalls = Some [call_a]\<rparr> =
     ([console_log [Text ''[ALTAIR] Received tool calls:'', NameList [''log_question_start'']],
       console_log [Text ''QUESTION START:'', Value (JStr ''Tell me about your hometown'')],
       setTimeout
         (sendToolResponse [\<lparr>success = True, fr_id = ''a'', fr_name = ''log_question_start''\<rparr>])
         200], None)
   \<and> all_tool_responses True (effects (onToolCall \<lparr>functionCalls = Some [call_a]\<rparr>)) =
       [[\<lparr>success = True, fr_id = ''a'', fr_name = ''log_question_start''\<rparr>]]
   \<and> all_tool_responses True (effects (onToolCall \<lparr>functionCalls = Some [call_unknown]\<rparr>)) =
       [[\<lparr>success = True, fr_id = ''u'', fr_name = ''unknown_tool''\<rparr>]]
   \<and> \<not> (\<exists>rs r. rs \<in> set (all_tool_responses True
                       (effects (onToolCall \<lparr>functionCalls = Some [call_a]\<rparr>)))
              \<and> r \<in> set rs \<and> fr_id r = ''a'' \<and> success r = False)"
  by (simp add: all_tool_responses_def onToolCall_def log_call_def reading_def
      schedule_flush_def respond_def call_a_def call_unknown_def)

subsection \<open>One entry for each call\<close>




subsection \<open>A batch that makes the handler throw\<close>

text \<open>
  Claim C4 at a batch that the code does not flush: the first call is a
  \<open>log_question_start\<close> without arguments, the second an unknown tool. The hook's handler
  writes its opening line and throws at \<open>args.question\<close>, inside the loop: it sets no
  timer, and no tool response is sent, at once or later, for either call. Both variants
  of the component's handler throw at the same place. The same happens at a
  \<open>log_ai_response\<close> call whose \<open>type\<close> is a number, at \<open>toUpperCase\<close>.
\<close>

theorem batch_without_args_not_flushed:
  "onToolCall \<lparr>functionCalls = Some [call_without_args, call_unknown]\<rparr> =
     ([console_log [Text ''[ALTAIR] Received tool calls:'',
                    NameList [''log_question_start'', ''unknown_tool'']]],
      Some TypeError)
   \<and> timers (effects (onToolCall \<lparr>functionCalls = Some [call_without_args, call_unknown]\<rparr>)) = []
   \<and> all_tool_responses session
        (effects (onToolCall \<lparr>functionCalls = Some [call_without_args, call_unknown]\<rparr>)) = []
   \<and> AltairComponent_onToolCall \<lparr>functionCalls = Some [call_without_args, call_unknown]\<rparr> =
       ([], Some TypeError)
   \<and> AltairComponent_onToolCall_basic \<lparr>functionCalls = Some [call_without_args, call_unknown]\<rparr> =
       ([], Some TypeError)
   \<and> onToolCall \<lparr>functionCalls = Some [call_type_number]\<rparr> =
       ([console_log [Text ''[ALTAIR] Received tool calls:'', NameList [''log_ai_response'']]],
        Some TypeError)
   \<and> all_tool_responses session
        (effects (onToolCall \<lparr>functionCalls = Some [call_type_number]\<rparr>)) = []"
  by (simp add: all_tool_responses_def onToolCall_def AltairComponent_onToolCall_def
      AltairComponent_onToolCall_basic_def onToolCall_component_def log_call_def
      log_call_basic_def reading_def schedule_flush_def call_without_args_def
      call_unknown_def call_type_number_def)

subsection \<open>No validation of the arguments\<close>

text \<open>
  Claim C6, as the code has it: the handler validates nothing and rejects nothing. On a
  batch that it runs through without an exception, every call, whether its arguments
  match the declared schema of its tool or not, is dispatched by its name alone: the
  logging branch of its name runs on whatever the arguments hold, and the one tool
  response that the timer of 200 ms sends answers it with \<open>{success: true}\<close>.
\<close>

theorem mismatch_still_dispatched:
  assumes "thrown (onToolCall \<lparr>functionCalls = Some fcs\<rparr>) = None" and "fc \<in> set fcs"
  shows "thrown (log_call fc) = None
       \<and> set (effects (log_call fc)) \<subseteq> set (effects (onToolCall \<lparr>functionCalls = Some fcs\<rparr>))
       \<and> timers (effects (onToolCall \<lparr>functionCalls = Some fcs\<rparr>)) =
           [(sendToolResponse (map respond fcs), 200)]
       \<and> all_tool_responses session (effects (onToolCall \<lparr>functionCalls = Some fcs\<rparr>)) =
           [map respond fcs]
       \<and> \<lparr>success = True, fr_id = fc_id fc, fr_name = fc_name fc\<rparr> \<in> set (map respond fcs)"
proof -
  from assms(1) have c: "thrown (forEach log_call fcs) = None"
    by (simp add: onToolCall_thrown)
  from assms(2) have ne: "fcs \<noteq> []" by auto
  from assms(2) have "respond fc \<in> set (map respond fcs)" by simp
  then have r: "\<lparr>success = True, fr_id = fc_id fc, fr_name = fc_name fc\<rparr> \<in> set (map respond fcs)"
    by (simp only: respond_def)
  from c ne r forEach_completes [OF c assms(2)] log_call_in_effects [OF assms]
  show ?thesis
    by (simp add: onToolCall_timers onToolCall_all_responses)
qed

theorem mismatch_still_dispatched_witness:
  "\<not> matches_schema functionDeclarations call_mismatch
   \<and> thrown (onToolCall \<lparr>functionCalls = Some [call_mismatch, call_unknown]\<rparr>) = None
   \<and> effects (log_call call_mismatch) =
       [console_log [Text ''QUESTION START:'', Value JUndefined],
        console_log [Text ''   Part:'', Value (JNum 2)]]
   \<and> console_log [Text ''QUESTION START:'', Value JUndefined] \<in>
       set (effects (onToolCall \<lparr>functionCalls = Some [call_mismatch, call_unknown]\<rparr>))
   \<and> all_tool_responses True
        (effects (onToolCall \<lparr>functionCalls = Some [call_mismatch, call_unknown]\<rparr>)) =
       [[\<lparr>success = True, fr_id = ''b'', fr_name = ''log_question_start''\<rparr>,
         \<lparr>success = True, fr_id = ''u'', fr_name = ''unknown_tool''\<rparr>]]"
proof -
  have m: "\<not> matches_schema functionDeclarations call_mismatch"
    by (simp add: matches_schema_def property_matches_def functionDeclarations_def
        declaration_altair_def conversationTools_def call_mismatch_def)
  have c: "thrown (onToolCall \<lparr>functionCalls = Some [call_mismatch, call_unknown]\<rparr>) = None"
    by (simp add: onToolCall_def log_call_def reading_def schedule_flush_def
        call_mismatch_def call_unknown_def)
  have l: "effects (log_call call_mismatch) =
       [console_log [Text ''QUESTION START:'', Value JUndefined],
        console_log [Text ''   Part:'', Value (JNum 2)]]"
    by (simp add: log_call_def reading_def call_mismatch_def)
  from mismatch_still_dispatched [OF c, of call_mismatch True] m c l
  show ?thesis by (simp add: respond_def call_mismatch_def call_unknown_def)
qed

text \<open>
  The claim as worded fails at the call \<open>b\<close>: \<open>log_question_start\<close> requires \<open>question\<close>
  and declares \<open>part\<close> a string; the call has no \<open>question\<close> and a number for \<open>part\<close>, and
  still the handler logs both and schedules the success response.
\<close>

theorem schema_validation_counterexample:
  "\<not> matches_schema functionDeclarations call_mismatch
   \<and> onToolCall \<lparr>functionCalls = Some [call_mismatch]\<rparr> =
       ([console_log [Text ''[ALTAIR] Received tool calls:'', NameList [''log_question_start'']],
         console_log [Text ''QUESTION START:'', Value JUndefined],
         console_log [Text ''   Part:'', Value (JNum 2)],
         setTimeout
           (sendToolResponse [\<lparr>success = True, fr_id = ''b'', fr_name = ''log_question_start''\<rparr>])
           200], None)"
  by (simp add: matches_schema_def property_matches_def functionDeclarations_def
      declaration_altair_def conversationTools_def call_mismatch_def onToolCall_def
      log_call_def reading_def schedule_flush_def respond_def)

subsection \<open>Missing and empty batches\<close>

text \<open>
  Claim C9, as the code has it: a message without \<open>functionCalls\<close> makes every handler
  return at once, with no log line, no timer and no response. A message with an empty
  list sets no timer and sends no response either; the component's handlers log
  nothing, and the hook's handler writes its one opening line, with the empty list of
  names. No handler throws on either message.
\<close>

theorem missing_or_empty_batch:
  "onToolCall \<lparr>functionCalls = None\<rparr> = ([], None)
   \<and> AltairComponent_onToolCall \<lparr>functionCalls = None\<rparr> = ([], None)
   \<and> AltairComponent_onToolCall_basic \<lparr>functionCalls = None\<rparr> = ([], None)
   \<and> onToolCall \<lparr>functionCalls = Some []\<rparr> =
       ([console_log [Text ''[ALTAIR] Received tool calls:'', NameList []]], None)
   \<and> timers (effects (onToolCall \<lparr>functionCalls = Some []\<rparr>)) = []
   \<and> all_tool_responses session (effects (onToolCall \<lparr>functionCalls = Some []\<rparr>)) = []
   \<and> AltairComponent_onToolCall \<lparr>functionCalls = Some []\<rparr> = ([], None)
   \<and> AltairComponent_onToolCall_basic \<lparr>functionCalls = Some []\<rparr> = ([], None)"
  by (simp add: onToolCall_def AltairComponent_onToolCall_def
      AltairComponent_onToolCall_basic_def onToolCall_component_def render_altair_def
      schedule_flush_def all_tool_responses_def)

text \<open>The hook's handler does log on an empty list.\<close>

theorem empty_batch_logging_counterexample:
  "logs (effects (onToolCall \<lparr>functionCalls = Some []\<rparr>)) =
     [[Text ''[ALTAIR] Received tool calls:'', NameList []]]
   \<and> logs (effects (onToolCall \<lparr>functionCalls = Some []\<rparr>)) \<noteq> []"
  by (simp add: onToolCall_def schedule_flush_def)

section \<open>Properties of the greeting\<close>

text \<open>
  Claim C8, as the code has it: there is no ready event. When the hook's effect runs
  with \<open>connected\<close> and \<open>isInitialized\<close> both set, it sends nothing itself and sets one
  timer of the fixed delay of 2000 ms; when the timer fires, the greeting is sent if
  \<open>client.session\<close> is set and not otherwise. The component sets a timer of 1500 ms when
  it mounts, whatever the connection.
\<close>

theorem greeting_after_fixed_delay:
  "timers (greeting_effect c i) = (if c \<and> i then [(sendGreeting_rest, 2000)] else [])
   \<and> sends (greeting_effect c i) = []
   \<and> sends (run_action True sendGreeting_rest) =
       [''Hello, I'm ready to begin the IELTS speaking test.'']
   \<and> sends (run_action False sendGreeting_rest) = []
   \<and> timers startGreeting_effect = [(startGreeting_rest, 1500)]
   \<and> sends startGreeting_effect = []
   \<and> sends (run_action False startGreeting_rest) = []"
  by (simp add: greeting_effect_def startGreeting_effect_def)

theorem greeting_after_fixed_delay_witness:
  "timers (greeting_effect True True) = [(sendGreeting_rest, 2000)]
   \<and> timers (greeting_effect True False) = []
   \<and> timers startGreeting_effect = [(startGreeting_rest, 1500)]"
  using greeting_after_fixed_delay [of True True] greeting_after_fixed_delay [of True False]
  by simp

text \<open>
  The claim as worded fails: on reaching the connected state the send is not
  triggered, a fixed 2000 ms timer is.
\<close>

theorem greeting_fixed_delay_counterexample:
  "sends (greeting_effect True True) = []
   \<and> setTimeout sendGreeting_rest 2000 \<in> set (greeting_effect True True)
   \<and> \<not> (\<exists>a. setTimeout a 0 \<in> set (greeting_effect True True))"
  by (simp add: greeting_effect_def)

section \<open>Properties of the audio tray\<close>

lemma deliver_keeps:
  "audioRecorder (deliver x s) = audioRecorder s
   \<and> connected_flag (deliver x s) = connected_flag s
   \<and> muted (deliver x s) = muted s"
  by (cases x) (simp_all add: onData_def split: sum.split)

lemma fold_deliver_keeps:
  "audioRecorder (fold deliver es s) = audioRecorder s
   \<and> connected_flag (fold deliver es s) = connected_flag s
   \<and> muted (fold deliver es s) = muted s"
  by (induction es arbitrary: s) (simp_all add: deliver_keeps)

lemma data_guarded_rerender: "data_guarded (rerender s)"
  by (simp add: data_guarded_def rerender_def audio_effect_def audio_cleanup_def on_def off_def
      start_def stop_def)

lemma data_guarded_step: "data_guarded s \<Longrightarrow> data_guarded (tray_step e s)"
proof (cases e)
  case (SetConnected b)
  assume "data_guarded s"
  then show ?thesis using SetConnected by (simp add: data_guarded_rerender)
next
  case ToggleMute
  then show ?thesis by (simp add: data_guarded_rerender)
next
  case (CaptureTick b v)
  assume "data_guarded s"
  then show ?thesis using CaptureTick by (simp add: data_guarded_def fold_deliver_keeps)
qed

lemma data_guarded_fold: "data_guarded s \<Longrightarrow> data_guarded (fold tray_step evs s)"
  by (induction evs arbitrary: s) (simp_all add: data_guarded_step)

lemma data_guarded_run: "data_guarded (tray_run device evs)"
  by (simp add: tray_run_def tray_init_def data_guarded_fold data_guarded_rerender)

lemma rerender_keeps_wire: "wire (rerender s) = wire s \<and> send_calls (rerender s) = send_calls s"
  by (simp add: rerender_def)

lemma idle_step:
  assumes "data_guarded s" "\<not> connected_flag s"
  shows "wire (tray_step e s) = wire s \<and> send_calls (tray_step e s) = send_calls s"
proof (cases e)
  case (CaptureTick b v)
  from assms have "Data \<notin> listeners (audioRecorder s)" by (auto simp add: data_guarded_def)
  then show ?thesis using CaptureTick by (simp add: capture_tick_def)
qed (simp_all add: rerender_keeps_wire)

text \<open>
  Claim C2, as the code has it: muting is done by the tray, which stops the recorder.
  When the mute is set, the tray's effect removes its data and volume handlers and
  calls \<open>stop\<close>: the recorder no longer records, and a capture tick delivers neither a
  data event nor a volume event, so the tray's state does not change on a tick.
\<close>

theorem mute_stops_recorder:
  assumes "\<not> muted s"
  shows "muted (tray_step ToggleMute s)
       \<and> \<not> recording (audioRecorder (tray_step ToggleMute s))
       \<and> listeners (audioRecorder (tray_step ToggleMute s)) =
           listeners (audioRecorder s) - {Data, Volume}
       \<and> capture_tick (audioRecorder (tray_step ToggleMute s)) base64 v = []
       \<and> tray_step (CaptureTick base64 v) (tray_step ToggleMute s) = tray_step ToggleMute s"
  using assms
  by (auto simp add: rerender_def audio_effect_def audio_cleanup_def off_def stop_def
      capture_tick_def)

theorem mute_stops_recorder_witness:
  "\<not> muted tray_connected
   \<and> recording (audioRecorder tray_connected)
   \<and> \<not> recording (audioRecorder (tray_step ToggleMute tray_connected))
   \<and> listeners (audioRecorder (tray_step ToggleMute tray_connected)) = {}
   \<and> tray_step (CaptureTick ''AAAA'' (1 / 2)) (tray_step ToggleMute tray_connected) =
       tray_step ToggleMute tray_connected"
proof -
  have h: "\<not> muted tray_connected"
    and r: "recording (audioRecorder tray_connected)"
    and l: "listeners (audioRecorder tray_connected) = {Data, Volume}"
    by (auto simp add: tray_connected_def tray_init_def rerender_def audio_effect_def
        audio_cleanup_def on_def off_def start_def stop_def)
  from mute_stops_recorder [OF h, of "''AAAA''" "1 / 2"] h r l show ?thesis by simp
qed

text \<open>
  The claim as worded fails on a connected tray: before the mute a tick delivers the
  volume, after it the recorder is stopped and the same tick delivers nothing.
\<close>

theorem mute_keeps_metering_counterexample:
  "recording (audioRecorder tray_connected)
   \<and> inVolume (tray_step (CaptureTick ''AAAA'' (1 / 2)) tray_connected) = 1 / 2
   \<and> \<not> recording (audioRecorder tray_muted)
   \<and> capture_tick (audioRecorder tray_muted) ''AAAA'' (1 / 2) = []
   \<and> inVolume (tray_step (CaptureTick ''AAAA'' (1 / 2)) tray_muted) = 0"
  by (simp add: tray_muted_def tray_connected_def tray_init_def rerender_def audio_effect_def
      audio_cleanup_def on_def off_def start_def stop_def capture_tick_def onData_def
      sendRealtimeInput_def)

text \<open>
  Claim C5: in every state the tray reaches from its mount in which it is not
  connected, its data handler is not subscribed, so no step invokes the client's audio
  send and no step transmits anything: the transmitted chunks and the count of send
  invocations stay as they are. And an audio send attempted while not connected fails
  with the invalid-state condition, transmitting nothing.
\<close>

theorem audio_only_while_connected:
  assumes "\<not> connected_flag (tray_run device evs)"
  shows "Data \<notin> listeners (audioRecorder (tray_run device evs))
       \<and> wire (tray_step e (tray_run device evs)) = wire (tray_run device evs)
       \<and> send_calls (tray_step e (tray_run device evs)) = send_calls (tray_run device evs)
       \<and> sendRealtimeInput False chunk w = Inl InvalidState"
  using assms data_guarded_run [of device evs] idle_step [of "tray_run device evs" e]
  by (simp add: data_guarded_def sendRealtimeInput_def)

theorem audio_only_while_connected_witness:
  "\<not> connected_flag (tray_run True short_session)
   \<and> wire (tray_run True short_session) = [''AAAA'']
   \<and> wire (tray_step (CaptureTick ''BBBB'' (1 / 4)) (tray_run True short_session)) = [''AAAA'']
   \<and> send_calls (tray_step (CaptureTick ''BBBB'' (1 / 4)) (tray_run True short_session)) = 1"
proof -
  have w: "wire (tray_run True short_session) = [''AAAA'']"
    and c: "send_calls (tray_run True short_session) = 1"
    and h: "\<not> connected_flag (tray_run True short_session)"
    by (simp_all add: short_session_def tray_run_def tray_init_def rerender_def
        audio_effect_def audio_cleanup_def on_def off_def start_def stop_def capture_tick_def
        onData_def sendRealtimeInput_def)
  from audio_only_while_connected [OF h, of "CaptureTick ''BBBB'' (1 / 4)"] w c h
  show ?thesis by simp
qed

section \<open>Properties of the playback queue\<close>

text \<open>
  Claim C7: whatever the playback queue holds, the interrupted signal leaves it empty
  at once, so that the next tick of the playback clock finds nothing to play; with
  five frames buffered, the queue has length 5 before the signal and 0 after it.
\<close>

theorem interrupted_flushes_queue:
  "queue (on_inbound Interrupted p) = []
   \<and> length (queue (fold (\<lambda>f. on_inbound (AudioChunk f)) [f1, f2, f3, f4, f5]
                \<lparr>queue = [], underruns = 0\<rparr>)) = 5
   \<and> length (queue (on_inbound Interrupted
                (fold (\<lambda>f. on_inbound (AudioChunk f)) [f1, f2, f3, f4, f5]
                   \<lparr>queue = [], underruns = 0\<rparr>))) = 0
   \<and> fst (playback_tick (on_inbound Interrupted p)) = None"
  by (simp add: flush_def enqueue_def playback_tick_def)

section \<open>Properties of the volume indicator\<close>

text \<open>
  Claim C10, as the code has it: for every volume that is not \<open>NaN\<close>, the width of the
  indicator in percent is a finite number between 5 and 100, also for a volume outside
  the interval from 0 to 1 and for an infinite one: it is 5 where the product
  \<open>volume * 100\<close> is at most 5, 100 where the product is at least 100, and the product
  itself in between. For the volume \<open>NaN\<close> the width is \<open>NaN\<close>.
\<close>

theorem volume_width_clamped:
  "volume_width rnd NaN = NaN
   \<and> volume_width rnd (Num MinusInfinity) = Num (Finite 5)
   \<and> volume_width rnd (Num PlusInfinity) = Num (Finite 100)
   \<and> volume_width rnd (Num (Finite x)) =
       Num (Finite (case rnd (x * 100) of
                      MinusInfinity \<Rightarrow> 5
                    | Finite p \<Rightarrow> min (max p 5) 100
                    | PlusInfinity \<Rightarrow> 100))
   \<and> (volume \<noteq> NaN \<longrightarrow>
        (\<exists>w. volume_width rnd volume = Num (Finite w) \<and> 5 \<le> w \<and> w \<le> 100))"
proof -
  have fin: "volume_width rnd (Num (Finite x)) =
       Num (Finite (case rnd (x * 100) of
                      MinusInfinity \<Rightarrow> 5
                    | Finite p \<Rightarrow> min (max p 5) 100
                    | PlusInfinity \<Rightarrow> 100))" for x
    by (cases "rnd (x * 100)") (auto simp add: volume_width_def)
  have bound: "\<exists>w. volume_width rnd volume = Num (Finite w) \<and> 5 \<le> w \<and> w \<le> 100"
    if "volume \<noteq> NaN"
  proof (cases volume)
    case NaN
    with that show ?thesis by simp
  next
    case (Num e)
    show ?thesis
    proof (cases e)
      case MinusInfinity
      with Num show ?thesis by (simp add: volume_width_def)
    next
      case (Finite y)
      with Num fin [of y] show ?thesis by (cases "rnd (y * 100)") auto
    next
      case PlusInfinity
      with Num show ?thesis by (simp add: volume_width_def)
    qed
  qed
  from fin bound show ?thesis by (simp add: volume_width_def)
qed

theorem volume_width_clamped_witness:
  "volume_width Finite (Num (Finite (7 / 100))) = Num (Finite 7)
   \<and> volume_width Finite (Num (Finite 3)) = Num (Finite 100)
   \<and> volume_width Finite (Num (Finite (- 1))) = Num (Finite 5)
   \<and> (\<exists>w. volume_width Finite (Num (Finite 3)) = Num (Finite w) \<and> 5 \<le> w \<and> w \<le> 100)"
  using volume_width_clamped [of Finite "7 / 100" "Num (Finite 3)"]
    volume_width_clamped [of Finite 3 "Num (Finite 3)"]
    volume_width_clamped [of Finite "- 1" "Num (Finite 3)"]
  by simp

text \<open>The claim as worded fails at the volume \<open>NaN\<close>: the width is \<open>NaN\<close>, not a number from 5 to 100.\<close>

theorem volume_width_nan_counterexample:
  "volume_width Finite NaN = NaN
   \<and> \<not> (\<exists>w. volume_width Finite NaN = Num (Finite w) \<and> 5 \<le> w \<and> w \<le> 100)"
  by (simp add: volume_width_def)

end
